theory Spec2Isabelle
  imports Complex_Main
begin

section \<open>Frame ranges (services/sceneDetector.js)\<close>

text \<open>
  JavaScript numbers that hold frame indices are modelled as \<^typ>\<open>int\<close>, numbers that
  hold seconds, frame rates or scores as \<^typ>\<open>rat\<close>. \<open>Math.round x\<close> is
  \<open>\<lfloor>x + 1/2\<rfloor>\<close>, which is \<^const>\<open>round\<close>; \<open>Math.max\<close> and \<open>Math.min\<close> are
  \<^const>\<open>max\<close> and \<^const>\<open>min\<close>. An optional argument is an \<open>option\<close>.
\<close>

text \<open>
  Frame ranges, the scenes built by the FFmpeg detector and the scenes returned to the
  caller are JavaScript objects that share the fields \<open>start_frame\<close> and \<open>end_frame\<close>;
  the records extend one another accordingly.
\<close>

record frames =
  start_frame :: int
  end_frame :: int

record frame_range = frames +
  frame_count :: int

text \<open>
  \<open>calculateFrameRange(startFrame, endFrame, offset, length, totalFrames)\<close>.
  The test \<open>length && length > 0\<close> fails for an absent length, for 0 and for a
  negative length.
\<close>

definition calculateFrameRange :: "int \<Rightarrow> int \<Rightarrow> int \<Rightarrow> int option \<Rightarrow> int \<Rightarrow> frame_range" where
  "calculateFrameRange startFrame endFrame offset len totalFrames =
     (let newStart = startFrame + offset;
          newEnd = endFrame + offset;
          newEnd = (case len of
                      Some l \<Rightarrow> if l \<noteq> 0 \<and> l > 0 then newStart + l - 1 else newEnd
                    | None \<Rightarrow> newEnd);
          newStart = max 1 newStart;
          newEnd = min totalFrames newEnd;
          newEnd = (if newStart > newEnd then newStart else newEnd)
      in \<lparr>start_frame = newStart, end_frame = newEnd, frame_count = newEnd - newStart + 1\<rparr>)"

text \<open>
  The reference definition of the frame range calculator, following the words of the
  specification: offset first, then the length (a provided positive length fixes the
  window, otherwise the span of the scene is kept), then the two clamps, then the collapse
  to a single frame at the new start.
\<close>

definition computeRange_spec :: "int \<Rightarrow> int \<Rightarrow> int \<Rightarrow> int option \<Rightarrow> int \<Rightarrow> frame_range" where
  "computeRange_spec sceneStart sceneEnd offsetFrames extractFrameCount totalFrames =
     (let newStart = sceneStart + offsetFrames;
          newEnd = (if extractFrameCount \<noteq> None \<and> the extractFrameCount > 0
                    then newStart + the extractFrameCount - 1
                    else newStart + (sceneEnd - sceneStart));
          clampedStart = (if newStart < 1 then 1 else newStart);
          clampedEnd = (if totalFrames < newEnd then totalFrames else newEnd)
      in if clampedStart > clampedEnd
         then \<lparr>start_frame = clampedStart, end_frame = clampedStart, frame_count = 1\<rparr>
         else \<lparr>start_frame = clampedStart, end_frame = clampedEnd,
               frame_count = clampedEnd - clampedStart + 1\<rparr>)"

section \<open>Range validation (services/sceneDetector.js)\<close>

text \<open>
  \<open>validateFrameRange\<close> receives arbitrary numbers, so its arguments are rationals and
  \<open>Number.isInteger\<close> is a test. The five messages pushed to \<open>errors\<close> are the five
  constructors below, in the order of the source; the fourth message quotes
  \<open>totalFrames\<close>.
\<close>

datatype range_error =
    StartNotPositiveInteger
  | EndNotPositiveInteger
  | StartAfterEnd
  | EndExceedsTotal rat
  | TooManyFrames

record validation =
  valid :: bool
  errors :: "range_error list"
  frameCount :: rat

definition isInteger :: "rat \<Rightarrow> bool" where
  "isInteger x = (of_int \<lfloor>x\<rfloor> = x)"

definition validateFrameRange :: "rat \<Rightarrow> rat \<Rightarrow> rat \<Rightarrow> validation" where
  "validateFrameRange startFrame endFrame totalFrames =
     (let errors = [];
          errors = (if \<not> isInteger startFrame \<or> startFrame < 1
                    then errors @ [StartNotPositiveInteger] else errors);
          errors = (if \<not> isInteger endFrame \<or> endFrame < 1
                    then errors @ [EndNotPositiveInteger] else errors);
          errors = (if startFrame > endFrame
                    then errors @ [StartAfterEnd] else errors);
          errors = (if endFrame > totalFrames
                    then errors @ [EndExceedsTotal totalFrames] else errors);
          frameCount = endFrame - startFrame + 1;
          errors = (if frameCount > 1000
                    then errors @ [TooManyFrames] else errors)
      in \<lparr>valid = (length errors = 0), errors = errors, frameCount = frameCount\<rparr>)"

section \<open>Video probe (services/ffmpeg.js)\<close>

text \<open>
  \<open>a || b\<close> on a number that may be missing: \<open>undefined\<close>, \<open>null\<close> and \<open>NaN\<close> are
  \<^const>\<open>None\<close>, and 0 is falsy as well.
\<close>

fun js_or :: "rat option \<Rightarrow> rat \<Rightarrow> rat" where
  "js_or None d = d"
| "js_or (Some v) d = (if v = 0 then d else v)"

text \<open>
  The rejections of the promises: \<open>Failed to probe video: ...\<close>, \<open>No video stream found\<close>
  and \<open>Scene detection failed: ...\<close>, each with the message of the underlying error.
\<close>

datatype error = ProbeFailed string | NoVideoStream | SceneDetectionFailed string

text \<open>
  What \<open>ffprobe\<close> reports for a file: an error, or the streams and the parsed
  \<open>format.duration\<close>. A stream carries its \<open>codec_type\<close>, the value of its
  \<open>r_frame_rate\<close> fraction, its width and its height.
\<close>

datatype stream = Stream (codec_type: string) (r_frame_rate: "rat option")
  (stream_width: "int option") (stream_height: "int option")

datatype ffprobe_result = ProbeErr string | Metadata "stream list" "rat option"

record video_info =
  duration :: rat
  fps :: rat
  width :: int
  height :: int
  total_frames :: int

definition getVideoInfo :: "ffprobe_result \<Rightarrow> error + video_info" where
  "getVideoInfo r =
     (case r of
        ProbeErr msg \<Rightarrow> Inl (ProbeFailed msg)
      | Metadata streams format_duration \<Rightarrow>
          (case find (\<lambda>s. codec_type s = ''video'') streams of
             None \<Rightarrow> Inl NoVideoStream
           | Some videoStream \<Rightarrow>
               (let duration = js_or format_duration 0;
                    fps = js_or (r_frame_rate videoStream) 30;
                    width = (case stream_width videoStream of None \<Rightarrow> 0 | Some x \<Rightarrow> x);
                    height = (case stream_height videoStream of None \<Rightarrow> 0 | Some x \<Rightarrow> x);
                    total_frames = round (duration * fps)
                in Inr \<lparr>video_info.duration = duration, fps = fps, width = width,
                        height = height, total_frames = total_frames\<rparr>)))"

section \<open>Scenes and the FFmpeg detector (services/ffmpeg.js)\<close>

record raw_scene = frames +
  start_time :: rat
  end_time :: rat

record scene = raw_scene +
  scene_number :: int
  duration :: rat

text \<open>
  The filter chain \<open>select='gt(scene,threshold)',showinfo\<close> prints one \<open>pts_time\<close> line for
  every frame whose scene score is greater than the threshold. A run of FFmpeg over the
  file is the list of its frames, each with its \<open>pts_time\<close> and its scene score, in
  order.
\<close>

definition showinfo_lines :: "rat \<Rightarrow> (rat \<times> rat) list \<Rightarrow> rat list" where
  "showinfo_lines threshold frames =
     map fst (filter (\<lambda>(ptsTime, score). score > threshold) frames)"

text \<open>
  The \<open>stderr\<close> handler of \<open>detectScenesFFmpeg\<close>, on one line that matches: the state is
  the array \<open>scenes\<close> and \<open>lastSceneFrame\<close>.
\<close>

definition on_stderr :: "int \<Rightarrow> rat \<Rightarrow> raw_scene list \<times> int \<Rightarrow> rat \<Rightarrow> raw_scene list \<times> int" where
  "on_stderr minSceneLength fps st ptsTime =
     (case st of (scenes, lastSceneFrame) \<Rightarrow>
        (let frameNum = round (ptsTime * fps)
         in if frameNum - lastSceneFrame \<ge> minSceneLength
            then (scenes @ [\<lparr>start_frame = lastSceneFrame, end_frame = frameNum,
                             start_time = (of_int lastSceneFrame - 1) / fps,
                             end_time = ptsTime\<rparr>],
                  frameNum + 1)
            else (scenes, lastSceneFrame)))"
  for fps

definition stderr_state :: "rat \<Rightarrow> int \<Rightarrow> rat \<Rightarrow> (rat \<times> rat) list \<Rightarrow> raw_scene list \<times> int" where
  "stderr_state threshold minSceneLength fps frames =
     foldl (on_stderr minSceneLength fps) ([], 1) (showinfo_lines threshold frames)"
  for fps

text \<open>The \<open>end\<close> handler: the final scene to the end of the video.\<close>

definition on_end :: "int \<Rightarrow> rat \<Rightarrow> video_info \<Rightarrow> raw_scene list \<times> int \<Rightarrow> raw_scene list" where
  "on_end minSceneLength fps info st =
     (case st of (scenes, lastSceneFrame) \<Rightarrow>
        if (of_int (total_frames info - lastSceneFrame) :: rat) \<ge> of_int minSceneLength / 2
           \<or> length scenes = 0
        then scenes @ [\<lparr>start_frame = lastSceneFrame, end_frame = total_frames info,
                        start_time = (of_int lastSceneFrame - 1) / fps,
                        end_time = video_info.duration info\<rparr>]
        else scenes)"
  for fps

text \<open>
  The standard output of the Python process after \<open>JSON.parse\<close>: its \<open>error\<close> field and
  its \<open>scenes\<close> field, each possibly missing. The process ends with the \<open>error\<close> event
  (it could not be started) or with the \<open>close\<close> event, which carries the exit code
  (\<open>null\<close> after a signal) and the output; the output is \<^const>\<open>None\<close> when
  \<open>JSON.parse\<close> throws on it.
\<close>

record py_result =
  error_field :: "string option"
  scenes_field :: "scene list option"

datatype process_outcome = SpawnError | Close "int option" "py_result option"

text \<open>
  Everything outside the process that a detection on one input path reads: the report of
  \<open>ffprobe\<close> (the same on every call), the outcome of the \<open>python3 scene_detector.py\<close>
  process for the threshold, minimum scene length and frame rate on its command line, and
  the run of FFmpeg (its error message, or its frames).
\<close>

record world =
  ffprobe :: ffprobe_result
  python :: "rat \<Rightarrow> rat \<Rightarrow> rat \<Rightarrow> process_outcome"
  ffmpeg_run :: "string + (rat \<times> rat) list"

definition detectScenesFFmpeg :: "world \<Rightarrow> rat \<Rightarrow> int \<Rightarrow> rat \<Rightarrow> error + raw_scene list" where
  "detectScenesFFmpeg w threshold minSceneLength fps =
     (case ffmpeg_run w of
        Inl msg \<Rightarrow> Inl (SceneDetectionFailed msg)
      | Inr frames \<Rightarrow>
          (case getVideoInfo (ffprobe w) of
             Inl e \<Rightarrow> Inl e
           | Inr info \<Rightarrow>
               Inr (on_end minSceneLength fps info
                      (stderr_state threshold minSceneLength fps frames))))"
  for fps

section \<open>Scene detection (services/sceneDetector.js)\<close>

definition DEFAULT_MIN_SCENE_LENGTH :: rat where
  "DEFAULT_MIN_SCENE_LENGTH = 1"

definition DEFAULT_THRESHOLD :: rat where
  "DEFAULT_THRESHOLD = 20"

text \<open>
  \<open>parseFloat(x.toFixed(3))\<close>: the multiple of 1/1000 nearest to \<open>x\<close>, the one of
  larger magnitude at a tie.
\<close>

definition toFixed3 :: "rat \<Rightarrow> rat" where
  "toFixed3 x = (if x < 0 then - (of_int (round (- x * 1000)) / 1000)
                 else of_int (round (x * 1000)) / 1000)"

text \<open>\<open>Array.prototype.map\<close> with the index as second argument.\<close>

fun map_index :: "('a \<Rightarrow> nat \<Rightarrow> 'b) \<Rightarrow> nat \<Rightarrow> 'a list \<Rightarrow> 'b list" where
  "map_index f i [] = []"
| "map_index f i (x # xs) = f x i # map_index f (Suc i) xs"

text \<open>The clean-up that \<open>fallbackDetectScenes\<close> maps over the scenes of FFmpeg.\<close>

definition cleanScene :: "video_info \<Rightarrow> raw_scene \<Rightarrow> nat \<Rightarrow> scene" where
  "cleanScene videoInfo scene index =
     \<lparr>start_frame = max 1 (round (of_int (start_frame scene) :: rat)),
      end_frame = min (total_frames videoInfo) (round (of_int (end_frame scene) :: rat)),
      start_time = max 0 (toFixed3 (start_time scene)),
      end_time = min (video_info.duration videoInfo) (toFixed3 (end_time scene)),
      scene_number = int index + 1,
      duration = toFixed3 (end_time scene - start_time scene)\<rparr>"

definition fallbackDetectScenes :: "world \<Rightarrow> rat \<Rightarrow> rat \<Rightarrow> error + scene list" where
  "fallbackDetectScenes w minSceneLengthSec fps =
     (let minSceneLengthFrames = round (minSceneLengthSec * fps)
      in case detectScenesFFmpeg w (3/10) minSceneLengthFrames fps of
           Inl e \<Rightarrow> Inl e
         | Inr scenes \<Rightarrow>
             (case getVideoInfo (ffprobe w) of
                Inl e \<Rightarrow> Inl e
              | Inr videoInfo \<Rightarrow> Inr (map_index (cleanScene videoInfo) 0 scenes)))"
  for fps

record options =
  fps :: "rat option"
  minSceneLength :: "rat option"
  threshold :: "rat option"

text \<open>
  The three values that \<open>detectScenes\<close> computes before it starts the Python process:
  \<open>fps\<close>, \<open>minSceneLengthSec\<close> and \<open>threshold\<close>.
\<close>

definition fps_of :: "options \<Rightarrow> video_info \<Rightarrow> rat" where
  "fps_of opts videoInfo = js_or (options.fps opts) (video_info.fps videoInfo)"

definition minSceneLengthSec_of :: "rat option \<Rightarrow> rat \<Rightarrow> rat" where
  "minSceneLengthSec_of supplied fps =
     (let minSceneLengthSec = js_or supplied DEFAULT_MIN_SCENE_LENGTH;
          minSceneLengthSec = (if minSceneLengthSec > 300 then minSceneLengthSec / fps
                               else minSceneLengthSec)
      in max (1/2) (min 60 minSceneLengthSec))"
  for fps

definition threshold_of :: "options \<Rightarrow> rat" where
  "threshold_of opts = js_or (threshold opts) DEFAULT_THRESHOLD"

text \<open>A string is truthy when it is present and not empty.\<close>

definition truthy :: "string option \<Rightarrow> bool" where
  "truthy x = (case x of None \<Rightarrow> False | Some s \<Rightarrow> s \<noteq> [])"

definition detectScenes :: "world \<Rightarrow> options \<Rightarrow> error + scene list" where
  "detectScenes w opts =
     (case getVideoInfo (ffprobe w) of
        Inl e \<Rightarrow> Inl e
      | Inr videoInfo \<Rightarrow>
          (let fps = fps_of opts videoInfo;
               minSceneLengthSec = minSceneLengthSec_of (minSceneLength opts) fps;
               threshold = threshold_of opts
           in case python w threshold minSceneLengthSec fps of
                SpawnError \<Rightarrow> fallbackDetectScenes w minSceneLengthSec fps
              | Close code output \<Rightarrow>
                  if code \<noteq> Some 0 then fallbackDetectScenes w minSceneLengthSec fps
                  else (case output of
                          None \<Rightarrow> fallbackDetectScenes w minSceneLengthSec fps
                        | Some result \<Rightarrow>
                            if truthy (error_field result)
                            then fallbackDetectScenes w minSceneLengthSec fps
                            else Inr (case scenes_field result of
                                        None \<Rightarrow> [] | Some scenes \<Rightarrow> scenes))))"

section \<open>Specification predicates and example inputs\<close>


text \<open>
  The four ways in which the Python process fails for \<open>detectScenes\<close>: it cannot be
  started, it exits with a code other than 0, its output does not parse, or its output
  has a truthy \<open>error\<close> field.
\<close>

definition primary_failed :: "process_outcome \<Rightarrow> bool" where
  "primary_failed out =
     (case out of
        SpawnError \<Rightarrow> True
      | Close code output \<Rightarrow>
          code \<noteq> Some 0
          \<or> (case output of None \<Rightarrow> True | Some result \<Rightarrow> truthy (error_field result)))"

text \<open>
  A video of 10 seconds at 24 frames per second (240 frames), with an audio stream before
  the video stream, a world around it whose Python process and FFmpeg run are given, and
  a call without options.
\<close>

definition example_probe :: ffprobe_result where
  "example_probe =
     Metadata [Stream ''audio'' None None None,
               Stream ''video'' (Some 24) (Some 640) (Some 480)] (Some 10)"

definition example_info :: video_info where
  "example_info = \<lparr>video_info.duration = 10, fps = 24, width = 640, height = 480,
                    total_frames = 240\<rparr>"

definition example_world :: "process_outcome \<Rightarrow> string + (rat \<times> rat) list \<Rightarrow> world" where
  "example_world out run =
     \<lparr>ffprobe = example_probe, python = (\<lambda>threshold minSceneLengthSec fps. out),
      ffmpeg_run = run\<rparr>"

definition no_options :: options where
  "no_options = \<lparr>fps = None, minSceneLength = None, threshold = None\<rparr>"

section \<open>Auxiliary facts\<close>

subsection \<open>Lists of scenes\<close>







lemma length_map_index: "length (map_index f k xs) = length xs"
  by (induction xs arbitrary: k) auto

lemma nth_map_index: "i < length xs \<Longrightarrow> map_index f k xs ! i = f (xs ! i) (k + i)"
proof (induction xs arbitrary: k i)
  case Nil
  then show ?case by simp
next
  case (Cons x xs)
  then show ?case by (cases i) auto
qed

lemma set_map_index: "s \<in> set (map_index f k xs) \<Longrightarrow> \<exists>x i. x \<in> set xs \<and> s = f x i"
proof (induction xs arbitrary: k)
  case Nil
  then show ?case by simp
next
  case (Cons x xs)
  then show ?case by simp blast
qed

subsection \<open>Rounding\<close>

lemma round_nonneg: "0 \<le> (y::rat) \<Longrightarrow> 0 \<le> round y"
  using round_mono [of 0 y] by simp

lemma isInteger_of_int: "isInteger (of_int k)"
  by (simp add: isInteger_def)

lemma toFixed3_ms: "isInteger (toFixed3 x * 1000)"
proof (cases "x < 0")
  case True
  then have "toFixed3 x * 1000 = of_int (- round (- x * 1000))" by (simp add: toFixed3_def)
  then show ?thesis using isInteger_of_int by metis
next
  case False
  then have "toFixed3 x * 1000 = of_int (round (x * 1000))" by (simp add: toFixed3_def)
  then show ?thesis using isInteger_of_int by metis
qed

lemma toFixed3_nonneg: "0 \<le> x \<Longrightarrow> 0 \<le> toFixed3 x"
  by (simp add: toFixed3_def round_nonneg)

lemma round_ms_near: "\<bar>of_int (round y) / 1000 - y / 1000\<bar> \<le> (1/2000 :: rat)"
proof -
  have "\<bar>of_int (round y) - y\<bar> \<le> 1/2" by (rule of_int_round_abs_le)
  then show ?thesis by linarith
qed

lemma toFixed3_near: "\<bar>toFixed3 x - x\<bar> \<le> 1/2000"
proof (cases "x < 0")
  case True
  then have "toFixed3 x - x
      = - (of_int (round (- x * 1000)) / 1000 - (- x * 1000) / 1000)"
    by (simp add: toFixed3_def)
  then have "\<bar>toFixed3 x - x\<bar> = \<bar>of_int (round (- x * 1000)) / 1000 - (- x * 1000) / 1000\<bar>"
    by (simp only: abs_minus_cancel)
  also have "\<dots> \<le> 1/2000" by (rule round_ms_near)
  finally show ?thesis .
next
  case False
  from round_ms_near [of "x * 1000"] False show ?thesis
    by (simp add: toFixed3_def)
qed



subsection \<open>The FFmpeg detector and the fallback\<close>





lemma detectScenes_eq_fallback:
  assumes "getVideoInfo (ffprobe w) = Inr info"
    and "primary_failed (python w (threshold_of opts)
           (minSceneLengthSec_of (minSceneLength opts) (fps_of opts info)) (fps_of opts info))"
  shows "detectScenes w opts
           = fallbackDetectScenes w
               (minSceneLengthSec_of (minSceneLength opts) (fps_of opts info)) (fps_of opts info)"
  using assms
  by (auto simp: detectScenes_def primary_failed_def Let_def
           split: process_outcome.splits option.splits)

lemma fallbackDetectScenes_run:
  assumes "getVideoInfo (ffprobe w) = Inr info" and "ffmpeg_run w = Inr frs"
  shows "fallbackDetectScenes w sec f
           = Inr (map_index (cleanScene info) 0
                    (on_end (round (sec * f)) f info
                       (stderr_state (3/10) (round (sec * f)) f frs)))"
  using assms by (simp add: fallbackDetectScenes_def detectScenesFFmpeg_def Let_def)

lemma fallbackDetectScenes_raw:
  assumes "getVideoInfo (ffprobe w) = Inr info"
    and "fallbackDetectScenes w sec f = Inr scs"
  shows "\<exists>raw. detectScenesFFmpeg w (3/10) (round (sec * f)) f = Inr raw
           \<and> scs = map_index (cleanScene info) 0 raw"
  using assms by (auto simp: fallbackDetectScenes_def Let_def split: sum.splits)


lemma cleanScene_clamped:
  "1 \<le> start_frame (cleanScene info x i)
   \<and> end_frame (cleanScene info x i) \<le> total_frames info
   \<and> 0 \<le> start_time (cleanScene info x i)
   \<and> end_time (cleanScene info x i) \<le> video_info.duration info
   \<and> isInteger (start_time (cleanScene info x i) * 1000)
   \<and> (isInteger (end_time (cleanScene info x i) * 1000)
       \<or> end_time (cleanScene info x i) = video_info.duration info)"
proof -
  have "isInteger (max 0 (toFixed3 (start_time x)) * 1000)"
    using toFixed3_ms [of "start_time x"] isInteger_of_int [of 0] by (simp add: max_def)
  moreover have "isInteger (min (video_info.duration info) (toFixed3 (end_time x)) * 1000)
       \<or> min (video_info.duration info) (toFixed3 (end_time x)) = video_info.duration info"
    using toFixed3_ms [of "end_time x"] by (simp add: min_def)
  ultimately show ?thesis by (simp add: cleanScene_def)
qed


section \<open>Properties of the frame range calculator\<close>

text \<open>
  C1, evaluated at the input where the code leaves the frame range of the video: the scene
  5..10 of a video of 10 frames, moved by an offset of 100 with no length. The start
  becomes 105, the end is clamped to 10, and the collapse then sets the end to 105, beyond
  the last frame of the video.
\<close>

theorem calculateFrameRange_beyond_total:
  "calculateFrameRange 5 10 100 None 10
     = \<lparr>start_frame = 105, end_frame = 105, frame_count = 1\<rparr>
   \<and> \<not> end_frame (calculateFrameRange 5 10 100 None 10) \<le> 10"
  by (simp add: calculateFrameRange_def)

text \<open>
  C2: the code computes the reference definition on every input (the end is moved by the
  offset in the code, which is the new start plus the span of the scene). In a video that
  holds the scene 100..340, offset -50 with no length gives 50..290, and offset 0 with
  length 50 gives 100..149.
\<close>

theorem calculateFrameRange_refines_spec:
  "calculateFrameRange s e off len tf = computeRange_spec s e off len tf
   \<and> (340 \<le> tf \<longrightarrow>
        calculateFrameRange 100 340 (- 50) None tf
          = \<lparr>start_frame = 50, end_frame = 290, frame_count = 241\<rparr>
      \<and> calculateFrameRange 100 340 0 (Some 50) tf
          = \<lparr>start_frame = 100, end_frame = 149, frame_count = 50\<rparr>)"
  by (cases len) (auto simp: calculateFrameRange_def computeRange_spec_def Let_def)

theorem calculateFrameRange_refines_spec_witness:
  "calculateFrameRange 100 340 (- 50) None 1000 = computeRange_spec 100 340 (- 50) None 1000
   \<and> (340::int) \<le> 1000
   \<and> calculateFrameRange 100 340 (- 50) None 1000
       = \<lparr>start_frame = 50, end_frame = 290, frame_count = 241\<rparr>
   \<and> calculateFrameRange 100 340 0 (Some 50) 1000
       = \<lparr>start_frame = 100, end_frame = 149, frame_count = 50\<rparr>"
  using calculateFrameRange_refines_spec [of 100 340 "- 50" None 1000]
  by (simp add: computeRange_spec_def)

section \<open>Properties of the range validator\<close>

text \<open>
  C7: every check of \<open>validateFrameRange\<close> is evaluated, each violated rule has its entry
  in \<open>errors\<close> and no other entry is there, \<open>valid\<close> says that \<open>errors\<close> is empty, which is
  the case exactly when start and end are positive integers, start \<le> end, end \<le>
  totalFrames and end - start + 1 \<le> 1000, and \<open>frameCount\<close> is end - start + 1. The range
  500..100 of 1000 frames is invalid and reports the violation of start \<le> end.
\<close>

theorem validateFrameRange_reports_all:
  "(valid (validateFrameRange s e t) \<longleftrightarrow>
      isInteger s \<and> 1 \<le> s \<and> isInteger e \<and> 1 \<le> e \<and> s \<le> e \<and> e \<le> t \<and> e - s + 1 \<le> 1000)
   \<and> (valid (validateFrameRange s e t) \<longleftrightarrow> errors (validateFrameRange s e t) = [])
   \<and> (StartNotPositiveInteger \<in> set (errors (validateFrameRange s e t))
        \<longleftrightarrow> \<not> (isInteger s \<and> 1 \<le> s))
   \<and> (EndNotPositiveInteger \<in> set (errors (validateFrameRange s e t))
        \<longleftrightarrow> \<not> (isInteger e \<and> 1 \<le> e))
   \<and> (StartAfterEnd \<in> set (errors (validateFrameRange s e t)) \<longleftrightarrow> \<not> s \<le> e)
   \<and> (EndExceedsTotal t \<in> set (errors (validateFrameRange s e t)) \<longleftrightarrow> \<not> e \<le> t)
   \<and> (TooManyFrames \<in> set (errors (validateFrameRange s e t)) \<longleftrightarrow> \<not> e - s + 1 \<le> 1000)
   \<and> set (errors (validateFrameRange s e t))
        \<subseteq> {StartNotPositiveInteger, EndNotPositiveInteger, StartAfterEnd,
            EndExceedsTotal t, TooManyFrames}
   \<and> frameCount (validateFrameRange s e t) = e - s + 1
   \<and> \<not> valid (validateFrameRange 500 100 1000)
   \<and> StartAfterEnd \<in> set (errors (validateFrameRange 500 100 1000))"
  by (auto simp: validateFrameRange_def Let_def isInteger_def)

theorem validateFrameRange_reports_all_witness:
  "valid (validateFrameRange 10 20 100)
   \<and> errors (validateFrameRange 10 20 100) = []
   \<and> frameCount (validateFrameRange 10 20 100) = 11
   \<and> errors (validateFrameRange 500 100 1000) = [StartAfterEnd]
   \<and> errors (validateFrameRange (1/2) 2000 1500)
       = [StartNotPositiveInteger, EndExceedsTotal 1500, TooManyFrames]"
  using validateFrameRange_reports_all [of 10 20 100]
  by (simp add: validateFrameRange_def isInteger_def)

section \<open>Properties of scene detection\<close>




text \<open>
  C4: once the probe has succeeded and the Python process has been started, each of its
  four failures (it cannot be started, a code other than 0, output that does not parse,
  a truthy \<open>error\<close> field in the output) makes \<open>detectScenes\<close> return what
  \<open>fallbackDetectScenes\<close> returns, whatever the process printed; \<open>detectScenes\<close>
  rejects only with the error of \<open>fallbackDetectScenes\<close>, after a failure of the Python
  process, and \<open>fallbackDetectScenes\<close> rejects only when the FFmpeg run fails. The
  result of \<open>fallbackDetectScenes\<close> does not depend on the Python process.
\<close>

theorem detectScenes_absorbs_primary_failures:
  assumes "getVideoInfo (ffprobe w) = Inr info"
    and "f = fps_of opts info"
    and "sec = minSceneLengthSec_of (minSceneLength opts) f"
    and "out = python w (threshold_of opts) sec f"
  shows "(out = SpawnError \<longrightarrow> detectScenes w opts = fallbackDetectScenes w sec f)
       \<and> (\<forall>code output. out = Close code output \<and> code \<noteq> Some 0 \<longrightarrow>
             detectScenes w opts = fallbackDetectScenes w sec f)
       \<and> (out = Close (Some 0) None \<longrightarrow> detectScenes w opts = fallbackDetectScenes w sec f)
       \<and> (\<forall>result. out = Close (Some 0) (Some result) \<and> truthy (error_field result) \<longrightarrow>
             detectScenes w opts = fallbackDetectScenes w sec f)
       \<and> (\<forall>e. detectScenes w opts = Inl e \<longrightarrow>
             primary_failed out \<and> fallbackDetectScenes w sec f = Inl e)
       \<and> (\<forall>e. fallbackDetectScenes w sec f = Inl e \<longrightarrow>
             (\<exists>msg. ffmpeg_run w = Inl msg \<and> e = SceneDetectionFailed msg))
       \<and> (\<forall>p. fallbackDetectScenes (w\<lparr>python := p\<rparr>) sec f = fallbackDetectScenes w sec f)"
proof -
  have fb: "detectScenes w opts = fallbackDetectScenes w sec f" if "primary_failed out"
    using detectScenes_eq_fallback [OF assms(1), of opts] that assms(2,3,4) by simp
  have ok: "\<exists>scs. detectScenes w opts = Inr scs" if "\<not> primary_failed out"
    using that assms
    by (auto simp: detectScenes_def primary_failed_def Let_def
             split: process_outcome.splits option.splits)
  have c1: "out = SpawnError \<longrightarrow> detectScenes w opts = fallbackDetectScenes w sec f"
    using fb by (simp add: primary_failed_def)
  have c2: "\<forall>code output. out = Close code output \<and> code \<noteq> Some 0 \<longrightarrow>
             detectScenes w opts = fallbackDetectScenes w sec f"
    using fb by (simp add: primary_failed_def)
  have c3: "out = Close (Some 0) None \<longrightarrow> detectScenes w opts = fallbackDetectScenes w sec f"
    using fb by (simp add: primary_failed_def)
  have c4: "\<forall>result. out = Close (Some 0) (Some result) \<and> truthy (error_field result) \<longrightarrow>
             detectScenes w opts = fallbackDetectScenes w sec f"
    using fb by (simp add: primary_failed_def)
  have c5: "\<forall>e. detectScenes w opts = Inl e \<longrightarrow>
             primary_failed out \<and> fallbackDetectScenes w sec f = Inl e"
    using fb ok by (metis Inl_Inr_False)
  have c6: "\<forall>e. fallbackDetectScenes w sec f = Inl e \<longrightarrow>
             (\<exists>msg. ffmpeg_run w = Inl msg \<and> e = SceneDetectionFailed msg)"
    using assms(1)
    by (auto simp: fallbackDetectScenes_def detectScenesFFmpeg_def Let_def split: sum.splits)
  have c7: "\<forall>p. fallbackDetectScenes (w\<lparr>python := p\<rparr>) sec f = fallbackDetectScenes w sec f"
    by (simp add: fallbackDetectScenes_def detectScenesFFmpeg_def cong: sum.case_cong)
  from c1 c2 c3 c4 c5 c6 c7 show ?thesis by blast
qed

theorem detectScenes_absorbs_primary_failures_witness:
  "detectScenes (example_world SpawnError (Inl ''ffmpeg exited with code 1'')) no_options
     = Inl (SceneDetectionFailed ''ffmpeg exited with code 1'')
   \<and> detectScenes (example_world SpawnError (Inr [(2, 1/2)])) no_options
     = fallbackDetectScenes (example_world SpawnError (Inr [(2, 1/2)])) 1 24
   \<and> detectScenes (example_world (Close (Some 1) None) (Inr [(2, 1/2)])) no_options
     = fallbackDetectScenes (example_world (Close (Some 1) None) (Inr [(2, 1/2)])) 1 24
   \<and> detectScenes (example_world (Close (Some 0) None) (Inr [(2, 1/2)])) no_options
     = fallbackDetectScenes (example_world (Close (Some 0) None) (Inr [(2, 1/2)])) 1 24
   \<and> detectScenes
        (example_world
           (Close (Some 0) (Some \<lparr>error_field = Some ''No module named scenedetect'',
                                   scenes_field = None\<rparr>))
           (Inr [(2, 1/2)])) no_options
     = fallbackDetectScenes
        (example_world
           (Close (Some 0) (Some \<lparr>error_field = Some ''No module named scenedetect'',
                                   scenes_field = None\<rparr>))
           (Inr [(2, 1/2)])) 1 24"
proof -
  have h2: "24 = fps_of no_options example_info" by code_simp
  have h3: "1 = minSceneLengthSec_of (minSceneLength no_options) 24" by code_simp
  have probe: "getVideoInfo (ffprobe (example_world out run)) = Inr example_info" for out run
    by (simp add: example_world_def) code_simp
  have py: "out = python (example_world out run) (threshold_of no_options) 1 24" for out run
    by (simp add: example_world_def)
  note inst = detectScenes_absorbs_primary_failures [OF probe h2 h3 py]
  let ?run = "Inr [(2, 1/2)] :: string + (rat \<times> rat) list"
  let ?r = "\<lparr>error_field = Some ''No module named scenedetect'', scenes_field = None\<rparr>
            :: py_result"
  have "fallbackDetectScenes (example_world SpawnError (Inl ''ffmpeg exited with code 1'')) 1 24
          = Inl (SceneDetectionFailed ''ffmpeg exited with code 1'')"
    by code_simp
  with inst [of SpawnError "Inl ''ffmpeg exited with code 1''", THEN conjunct1]
  have c0: "detectScenes (example_world SpawnError (Inl ''ffmpeg exited with code 1'')) no_options
     = Inl (SceneDetectionFailed ''ffmpeg exited with code 1'')"
    by simp
  from inst [of SpawnError ?run, THEN conjunct1]
  have c1: "detectScenes (example_world SpawnError ?run) no_options
     = fallbackDetectScenes (example_world SpawnError ?run) 1 24"
    by simp
  from inst [of "Close (Some 1) None" ?run, THEN conjunct2, THEN conjunct1]
  have c2: "detectScenes (example_world (Close (Some 1) None) ?run) no_options
     = fallbackDetectScenes (example_world (Close (Some 1) None) ?run) 1 24"
    by simp
  from inst [of "Close (Some 0) None" ?run, THEN conjunct2, THEN conjunct2, THEN conjunct1]
  have c3: "detectScenes (example_world (Close (Some 0) None) ?run) no_options
     = fallbackDetectScenes (example_world (Close (Some 0) None) ?run) 1 24"
    by simp
  have "truthy (error_field ?r)" by code_simp
  with inst [of "Close (Some 0) (Some ?r)" ?run,
      THEN conjunct2, THEN conjunct2, THEN conjunct2, THEN conjunct1]
  have c4: "detectScenes (example_world (Close (Some 0) (Some ?r)) ?run) no_options
     = fallbackDetectScenes (example_world (Close (Some 0) (Some ?r)) ?run) 1 24"
    by simp
  from c0 c1 c2 c3 c4 show ?thesis by (intro conjI)
qed

text \<open>
  C5, as the claim states it, fails on the primary path: the scenes that the Python
  process prints are resolved as they are. With exit code 0 and the output
  \<open>{"scenes": [{"start_frame": 0, "end_frame": 240, "start_time": 0, "end_time": 10.0003,
  ...}]}\<close> on the 10-second video, \<open>detectScenes\<close> returns that scene: its start frame
  is below 1, its end time is above the duration and is no multiple of a millisecond.
\<close>

theorem detectScenes_postprocessing_counterexample:
  "detectScenes
     (example_world
        (Close (Some 0)
           (Some \<lparr>error_field = None,
                  scenes_field = Some [\<lparr>start_frame = 0, end_frame = 240, start_time = 0,
                                        end_time = 100003/10000, scene_number = 1,
                                        duration = 100003/10000\<rparr>]\<rparr>))
        (Inr [])) no_options
     = Inr [\<lparr>start_frame = 0, end_frame = 240, start_time = 0, end_time = 100003/10000,
              scene_number = 1, duration = 100003/10000\<rparr>]
   \<and> video_info.duration example_info = 10
   \<and> \<not> (1::int) \<le> 0
   \<and> \<not> (100003/10000 :: rat) \<le> video_info.duration example_info
   \<and> \<not> isInteger (100003/10000 * 1000)"
  by code_simp

text \<open>
  C5, amended: the scenes that \<open>detectScenes\<close> returns from the fallback detector are
  the scenes that \<open>detectScenesFFmpeg\<close> built, one for one and in order, each with its
  start_frame clamped to \<ge> 1, its end_frame clamped to \<le> total_frames, its start_time
  rounded to a millisecond and then clamped to \<ge> 0, and its end_time rounded to a
  millisecond and then clamped to \<le> duration, where rounding to a millisecond gives a
  multiple of 1/1000 at most half a millisecond away. So every such scene has start_frame
  \<ge> 1, end_frame \<le> total_frames, start_time \<ge> 0 and end_time \<le> duration; its start_time
  is a multiple of a millisecond, and its end_time is one too unless it is the duration
  of the video itself. When the Python process succeeds, its scenes are returned without
  any post-processing.
\<close>

theorem detectScenes_postprocessing:
  assumes "getVideoInfo (ffprobe w) = Inr info"
    and "f = fps_of opts info"
    and "sec = minSceneLengthSec_of (minSceneLength opts) f"
    and "out = python w (threshold_of opts) sec f"
  shows "(primary_failed out \<longrightarrow>
           (\<forall>scs. detectScenes w opts = Inr scs \<longrightarrow>
              (\<exists>raw. detectScenesFFmpeg w (3/10) (round (sec * f)) f = Inr raw
                 \<and> length scs = length raw
                 \<and> (\<forall>i < length raw.
                      start_frame (scs ! i) = max 1 (start_frame (raw ! i))
                      \<and> end_frame (scs ! i) = min (total_frames info) (end_frame (raw ! i))
                      \<and> start_time (scs ! i) = max 0 (toFixed3 (start_time (raw ! i)))
                      \<and> end_time (scs ! i)
                          = min (video_info.duration info) (toFixed3 (end_time (raw ! i)))
                      \<and> scene_number (scs ! i) = int i + 1))
              \<and> (\<forall>s \<in> set scs.
                 1 \<le> start_frame s \<and> end_frame s \<le> total_frames info
                 \<and> 0 \<le> start_time s \<and> end_time s \<le> video_info.duration info
                 \<and> isInteger (start_time s * 1000)
                 \<and> (isInteger (end_time s * 1000) \<or> end_time s = video_info.duration info))))
       \<and> (\<forall>x. isInteger (toFixed3 x * 1000) \<and> \<bar>toFixed3 x - x\<bar> \<le> 1/2000)
       \<and> (\<forall>result. out = Close (Some 0) (Some result) \<and> \<not> truthy (error_field result) \<longrightarrow>
             detectScenes w opts
               = Inr (case scenes_field result of None \<Rightarrow> [] | Some scenes \<Rightarrow> scenes))"
proof -
  have exact: "\<exists>raw. detectScenesFFmpeg w (3/10) (round (sec * f)) f = Inr raw
                 \<and> length scs = length raw
                 \<and> (\<forall>i < length raw.
                      start_frame (scs ! i) = max 1 (start_frame (raw ! i))
                      \<and> end_frame (scs ! i) = min (total_frames info) (end_frame (raw ! i))
                      \<and> start_time (scs ! i) = max 0 (toFixed3 (start_time (raw ! i)))
                      \<and> end_time (scs ! i)
                          = min (video_info.duration info) (toFixed3 (end_time (raw ! i)))
                      \<and> scene_number (scs ! i) = int i + 1)"
    and bounds: "\<forall>s \<in> set scs.
                 1 \<le> start_frame s \<and> end_frame s \<le> total_frames info
                 \<and> 0 \<le> start_time s \<and> end_time s \<le> video_info.duration info
                 \<and> isInteger (start_time s * 1000)
                 \<and> (isInteger (end_time s * 1000) \<or> end_time s = video_info.duration info)"
    if failed: "primary_failed out" and res: "detectScenes w opts = Inr scs" for scs
  proof -
    have "detectScenes w opts = fallbackDetectScenes w sec f"
      using detectScenes_eq_fallback [OF assms(1), of opts] failed assms(2,3,4) by simp
    with res have "fallbackDetectScenes w sec f = Inr scs" by simp
    from fallbackDetectScenes_raw [OF assms(1) this]
    obtain raw where raw: "detectScenesFFmpeg w (3/10) (round (sec * f)) f = Inr raw"
      and scs: "scs = map_index (cleanScene info) 0 raw" by blast
    have len: "length scs = length raw" by (simp add: scs length_map_index)
    have "start_frame (scs ! i) = max 1 (start_frame (raw ! i))
          \<and> end_frame (scs ! i) = min (total_frames info) (end_frame (raw ! i))
          \<and> start_time (scs ! i) = max 0 (toFixed3 (start_time (raw ! i)))
          \<and> end_time (scs ! i) = min (video_info.duration info) (toFixed3 (end_time (raw ! i)))
          \<and> scene_number (scs ! i) = int i + 1" if "i < length raw" for i
      using that by (simp add: scs nth_map_index cleanScene_def)
    with raw len show "\<exists>raw. detectScenesFFmpeg w (3/10) (round (sec * f)) f = Inr raw
                 \<and> length scs = length raw
                 \<and> (\<forall>i < length raw.
                      start_frame (scs ! i) = max 1 (start_frame (raw ! i))
                      \<and> end_frame (scs ! i) = min (total_frames info) (end_frame (raw ! i))
                      \<and> start_time (scs ! i) = max 0 (toFixed3 (start_time (raw ! i)))
                      \<and> end_time (scs ! i)
                          = min (video_info.duration info) (toFixed3 (end_time (raw ! i)))
                      \<and> scene_number (scs ! i) = int i + 1)"
      by blast
    show "\<forall>s \<in> set scs.
                 1 \<le> start_frame s \<and> end_frame s \<le> total_frames info
                 \<and> 0 \<le> start_time s \<and> end_time s \<le> video_info.duration info
                 \<and> isInteger (start_time s * 1000)
                 \<and> (isInteger (end_time s * 1000) \<or> end_time s = video_info.duration info)"
    proof
      fix s assume "s \<in> set scs"
      with scs set_map_index [of s "cleanScene info" 0 raw]
      obtain x i where "s = cleanScene info x i" by blast
      then show "1 \<le> start_frame s \<and> end_frame s \<le> total_frames info
                 \<and> 0 \<le> start_time s \<and> end_time s \<le> video_info.duration info
                 \<and> isInteger (start_time s * 1000)
                 \<and> (isInteger (end_time s * 1000) \<or> end_time s = video_info.duration info)"
        using cleanScene_clamped [of info x i] by simp
    qed
  qed
  have rounding: "\<forall>x. isInteger (toFixed3 x * 1000) \<and> \<bar>toFixed3 x - x\<bar> \<le> 1/2000"
    using toFixed3_ms toFixed3_near by blast
  have primary: "detectScenes w opts
               = Inr (case scenes_field result of None \<Rightarrow> [] | Some scenes \<Rightarrow> scenes)"
    if "out = Close (Some 0) (Some result) \<and> \<not> truthy (error_field result)" for result
    using that assms by (simp add: detectScenes_def Let_def)
  from exact bounds rounding primary show ?thesis by blast
qed

theorem detectScenes_postprocessing_witness:
  "detectScenes (example_world (Close None None) (Inr [(100006/10000, 1/2)])) no_options
     = Inr [\<lparr>start_frame = 1, end_frame = 240, start_time = 0, end_time = 10,
              scene_number = 1, duration = 10001/1000\<rparr>]
   \<and> detectScenesFFmpeg (example_world (Close None None) (Inr [(100006/10000, 1/2)]))
        (3/10) 24 24
     = Inr [\<lparr>start_frame = 1, end_frame = 240, start_time = 0, end_time = 100006/10000\<rparr>]
   \<and> toFixed3 (100006/10000) = 10001/1000
   \<and> end_time \<lparr>start_frame = 1, end_frame = 240, start_time = 0, end_time = 10,
              scene_number = 1, duration = 10001/1000\<rparr>
       = min (video_info.duration example_info) (toFixed3 (100006/10000))
   \<and> end_frame \<lparr>start_frame = 1, end_frame = 240, start_time = 0, end_time = 10,
              scene_number = 1, duration = 10001/1000\<rparr> \<le> total_frames example_info
   \<and> end_time \<lparr>start_frame = 1, end_frame = 240, start_time = 0, end_time = 10,
              scene_number = 1, duration = 10001/1000\<rparr> \<le> video_info.duration example_info
   \<and> detectScenes
        (example_world
           (Close (Some 0) (Some \<lparr>error_field = Some [], scenes_field = None\<rparr>))
           (Inr [])) no_options
      = Inr []"
proof -
  let ?run = "Inr [(100006/10000, 1/2)] :: string + (rat \<times> rat) list"
  let ?w = "example_world (Close None None) ?run"
  let ?s = "\<lparr>start_frame = 1, end_frame = 240, start_time = 0, end_time = 10,
              scene_number = 1, duration = 10001/1000\<rparr> :: scene"
  let ?x = "\<lparr>start_frame = 1, end_frame = 240, start_time = 0, end_time = 100006/10000\<rparr>
            :: raw_scene"
  let ?r = "\<lparr>error_field = Some [], scenes_field = None\<rparr> :: py_result"
  let ?v = "example_world (Close (Some 0) (Some ?r)) (Inr [])"
  have h2: "24 = fps_of no_options example_info" by code_simp
  have h3: "1 = minSceneLengthSec_of (minSceneLength no_options) 24" by code_simp
  have probe: "getVideoInfo (ffprobe (example_world out run)) = Inr example_info" for out run
    by (simp add: example_world_def) code_simp
  have py: "out = python (example_world out run) (threshold_of no_options) 1 24" for out run
    by (simp add: example_world_def)
  note inst = detectScenes_postprocessing [OF probe h2 h3 py]
  have res: "detectScenes ?w no_options = Inr [?s]" by code_simp
  have raw: "detectScenesFFmpeg ?w (3/10) 24 24 = Inr [?x]" by code_simp
  have fix3: "toFixed3 (100006/10000) = 10001/1000" by code_simp
  have failed: "primary_failed (Close None None)" by code_simp
  have "\<not> truthy (error_field ?r)" by code_simp
  with inst [of "Close (Some 0) (Some ?r)" "Inr []", THEN conjunct2, THEN conjunct2]
  have prim: "detectScenes ?v no_options = Inr []" by simp
  from inst [of "Close None None" ?run, THEN conjunct1] failed res
  obtain raw' where r1: "detectScenesFFmpeg ?w (3/10) (round (1 * 24 :: rat)) 24 = Inr raw'"
    and r2: "\<forall>i < length raw'.
               end_time ([?s] ! i)
                 = min (video_info.duration example_info) (toFixed3 (end_time (raw' ! i)))"
    and r3: "\<forall>s \<in> set [?s]. end_frame s \<le> total_frames example_info
               \<and> end_time s \<le> video_info.duration example_info"
    by blast
  from r1 raw have "raw' = [?x]" by simp
  with r2 have e: "end_time ?s = min (video_info.duration example_info) (toFixed3 (100006/10000))"
    by simp
  from r3 have b: "end_frame ?s \<le> total_frames example_info
      \<and> end_time ?s \<le> video_info.duration example_info"
    by simp
  from res raw fix3 e b prim show ?thesis by (intro conjI) simp_all
qed

text \<open>
  C6, as the claim states it, fails for the supplied value 0: \<open>0 || 1.0\<close> is 1.0, so
  the normalized value is 1 second, where clamping 0 to [0.5, 60] gives 0.5 seconds.
\<close>

theorem minSceneLength_normalized_counterexample:
  "minSceneLengthSec_of (Some 0) 30 = 1
   \<and> max (1/2) (min 60 (if (0::rat) > 300 then 0 / 30 else 0)) = (1/2 :: rat)"
  by code_simp

text \<open>
  C6, amended: a supplied \<open>minSceneLength\<close> other than 0 is divided by fps when it exceeds
  300, and the resulting seconds are clamped to [0.5, 60]; 450 at fps = 30 normalizes to
  15 seconds and 0.2 to 0.5 seconds.
\<close>

theorem minSceneLength_normalized:
  assumes "v \<noteq> 0"
  shows "minSceneLengthSec_of (Some v) f = max (1/2) (min 60 (if v > 300 then v / f else v))
       \<and> 1/2 \<le> minSceneLengthSec_of (Some v) f \<and> minSceneLengthSec_of (Some v) f \<le> 60
       \<and> minSceneLengthSec_of (Some 450) 30 = 15
       \<and> minSceneLengthSec_of (Some (2/10)) f = 1/2"
  using assms by (simp add: minSceneLengthSec_of_def DEFAULT_MIN_SCENE_LENGTH_def Let_def)

theorem minSceneLength_normalized_witness:
  "(450::rat) \<noteq> 0
   \<and> minSceneLengthSec_of (Some 450) 30 = max (1/2) (min 60 (if (450::rat) > 300 then 450 / 30 else 450))
   \<and> minSceneLengthSec_of (Some 450) 30 = 15"
proof -
  have h: "(450::rat) \<noteq> 0" by simp
  from minSceneLength_normalized [OF h, of 30] h show ?thesis by simp
qed

text \<open>
  C8, as the claim states it, fails: the fallback does not use the threshold supplied to
  \<open>detectScenes\<close>. With the threshold 50 supplied and the Python process not starting, a
  frame at 2 seconds with the scene score 1/2, which does not exceed 50, closes the scene
  1..48 and opens the next one at frame 49; with the threshold 1 the result is the same.
\<close>

theorem fallback_boundary_counterexample:
  "threshold_of (no_options\<lparr>threshold := Some 50\<rparr>) = 50
   \<and> \<not> (1/2 :: rat) > 50
   \<and> detectScenes (example_world SpawnError (Inr [(2, 1/2)]))
        (no_options\<lparr>threshold := Some 50\<rparr>)
      = Inr [\<lparr>start_frame = 1, end_frame = 48, start_time = 0, end_time = 2,
               scene_number = 1, duration = 2\<rparr>,
             \<lparr>start_frame = 49, end_frame = 240, start_time = 2, end_time = 10,
               scene_number = 2, duration = 8\<rparr>]
   \<and> detectScenes (example_world SpawnError (Inr [(2, 1/2)]))
        (no_options\<lparr>threshold := Some 1\<rparr>)
      = detectScenes (example_world SpawnError (Inr [(2, 1/2)]))
        (no_options\<lparr>threshold := Some 50\<rparr>)"
  by code_simp

text \<open>
  C8, amended: whatever threshold is supplied, the fallback detector runs FFmpeg's scene
  filter with the fixed threshold 0.3 and \<open>minSceneLengthFrames\<close> = round(minSceneLengthSec
  \<times> fps). It starts with no scene and \<open>lastSceneFrame\<close> = 1; at a frame, a boundary is
  placed exactly when the scene score exceeds 0.3 and the frame number minus
  \<open>lastSceneFrame\<close> (the first frame of the open scene) is at least
  \<open>minSceneLengthFrames\<close>: then the open scene is closed at that frame and the next one is
  opened at frame + 1; otherwise nothing changes.
\<close>

theorem fallback_boundary_rule:
  assumes "getVideoInfo (ffprobe w) = Inr info"
    and "f = fps_of opts info"
    and "sec = minSceneLengthSec_of (minSceneLength opts) f"
    and "primary_failed (python w (threshold_of opts) sec f)"
    and "ffmpeg_run w = Inr frs"
    and "m = round (sec * f)"
  shows "detectScenes w opts
           = Inr (map_index (cleanScene info) 0
                    (on_end m f info (stderr_state (3/10) m f frs)))
       \<and> stderr_state (3/10) m f [] = ([], 1)
       \<and> (\<forall>pre t sc. stderr_state (3/10) m f (pre @ [(t, sc)]) =
            (case stderr_state (3/10) m f pre of (scenes, lastSceneFrame) \<Rightarrow>
               if 3/10 < sc \<and> m \<le> round (t * f) - lastSceneFrame
               then (scenes @ [\<lparr>start_frame = lastSceneFrame, end_frame = round (t * f),
                                start_time = (of_int lastSceneFrame - 1) / f, end_time = t\<rparr>],
                     round (t * f) + 1)
               else (scenes, lastSceneFrame)))"
proof -
  have "detectScenes w opts = fallbackDetectScenes w sec f"
    using detectScenes_eq_fallback [OF assms(1), of opts] assms(2,3,4) by simp
  then have a: "detectScenes w opts
           = Inr (map_index (cleanScene info) 0
                    (on_end m f info (stderr_state (3/10) m f frs)))"
    using fallbackDetectScenes_run [OF assms(1,5), of sec f] assms(6) by simp
  have b: "stderr_state (3/10) m f [] = ([], 1)"
    by (simp add: stderr_state_def showinfo_lines_def)
  have c: "stderr_state (3/10) m f (pre @ [(t, sc)]) =
            (case stderr_state (3/10) m f pre of (scenes, lastSceneFrame) \<Rightarrow>
               if 3/10 < sc \<and> m \<le> round (t * f) - lastSceneFrame
               then (scenes @ [\<lparr>start_frame = lastSceneFrame, end_frame = round (t * f),
                                start_time = (of_int lastSceneFrame - 1) / f, end_time = t\<rparr>],
                     round (t * f) + 1)
               else (scenes, lastSceneFrame))" for pre t sc
    by (simp add: stderr_state_def showinfo_lines_def on_stderr_def Let_def split: prod.splits)
  from a b c show ?thesis by blast
qed

theorem fallback_boundary_rule_witness:
  "detectScenes (example_world SpawnError (Inr [(2, 1/2), (5/2, 1), (4, 3/10)]))
        (no_options\<lparr>threshold := Some 50\<rparr>)
     = Inr (map_index (cleanScene example_info) 0
              (on_end 24 24 example_info (stderr_state (3/10) 24 24 [(2, 1/2), (5/2, 1), (4, 3/10)])))
   \<and> stderr_state (3/10) 24 24 [(2, 1/2)]
       = ([\<lparr>start_frame = 1, end_frame = 48, start_time = 0, end_time = 2\<rparr>], 49)
   \<and> stderr_state (3/10) 24 24 [(2, 1/2), (5/2, 1)] = stderr_state (3/10) 24 24 [(2, 1/2)]
   \<and> stderr_state (3/10) 24 24 [(2, 1/2), (5/2, 1), (4, 3/10)]
       = stderr_state (3/10) 24 24 [(2, 1/2)]"
proof -
  let ?frs = "[(2, 1/2), (5/2, 1), (4, 3/10)] :: (rat \<times> rat) list"
  let ?w = "example_world SpawnError (Inr ?frs)"
  let ?o = "no_options\<lparr>threshold := Some 50\<rparr>"
  have h1: "getVideoInfo (ffprobe ?w) = Inr example_info" by code_simp
  have h2: "24 = fps_of ?o example_info" by code_simp
  have h3: "1 = minSceneLengthSec_of (minSceneLength ?o) 24" by code_simp
  have h4: "primary_failed (python ?w (threshold_of ?o) 1 24)" by code_simp
  have h5: "ffmpeg_run ?w = Inr ?frs" by code_simp
  have h6: "24 = round (1 * 24 :: rat)" by simp
  note inst = fallback_boundary_rule [OF h1 h2 h3 h4 h5 h6]
  from inst have a: "detectScenes ?w ?o
     = Inr (map_index (cleanScene example_info) 0
              (on_end 24 24 example_info (stderr_state (3/10) 24 24 ?frs)))"
    by blast
  from inst have e: "stderr_state (3/10) 24 24 [] = ([], 1)" by blast
  from inst have step: "stderr_state (3/10) 24 24 (pre @ [(t, sc)]) =
            (case stderr_state (3/10) 24 24 pre of (scenes, lastSceneFrame) \<Rightarrow>
               if 3/10 < sc \<and> 24 \<le> round (t * 24) - lastSceneFrame
               then (scenes @ [\<lparr>start_frame = lastSceneFrame, end_frame = round (t * 24),
                                start_time = (of_int lastSceneFrame - 1) / 24, end_time = t\<rparr>],
                     round (t * 24) + 1)
               else (scenes, lastSceneFrame))" for pre t sc
    by blast
  have r2: "round (2 * 24 :: rat) = 48" by simp
  have r3: "round (5/2 * 24 :: rat) = 60" by simp
  have s1: "stderr_state (3/10) 24 24 [(2, 1/2)]
       = ([\<lparr>start_frame = 1, end_frame = 48, start_time = 0, end_time = 2\<rparr>], 49)"
    using step [of "[]" 2 "1/2"] e r2 by simp
  have s2: "stderr_state (3/10) 24 24 [(2, 1/2), (5/2, 1)] = stderr_state (3/10) 24 24 [(2, 1/2)]"
    using step [of "[(2, 1/2)]" "5/2" 1] s1 r3 by simp
  have s3: "stderr_state (3/10) 24 24 [(2, 1/2), (5/2, 1), (4, 3/10)]
       = stderr_state (3/10) 24 24 [(2, 1/2)]"
    using step [of "[(2, 1/2), (5/2, 1)]" 4 "3/10"] s2 s1 by simp
  from a s1 s2 s3 show ?thesis by simp
qed

text \<open>
  C9, as the claim states it, fails: \<open>duration\<close> is computed from the times before
  rounding and clamping. At 24 frames per second, with scene changes at frame 25 and at
  3.0004 seconds, the second scene starts at 25/24 seconds: its returned times are 1.042
  and 3.000, whose difference is 1.958, and its returned duration is 1.959, the rounding of
  3.0004 - 25/24 = 1.95873...
\<close>

theorem fallback_duration_counterexample:
  "detectScenes (example_world SpawnError (Inr [(25/24, 1/2), (30004/10000, 1/2)])) no_options
     = Inr [\<lparr>start_frame = 1, end_frame = 25, start_time = 0, end_time = 1042/1000,
              scene_number = 1, duration = 1042/1000\<rparr>,
            \<lparr>start_frame = 26, end_frame = 72, start_time = 1042/1000, end_time = 3,
              scene_number = 2, duration = 1959/1000\<rparr>,
            \<lparr>start_frame = 73, end_frame = 240, start_time = 3, end_time = 10,
              scene_number = 3, duration = 7\<rparr>]
   \<and> (3 :: rat) - 1042/1000 = 1958/1000
   \<and> (1959/1000 :: rat) \<noteq> 3 - 1042/1000"
  by code_simp

text \<open>
  C9, amended: for every scene produced by the fallback path, the returned \<open>duration\<close>
  is the difference of the end time and the start time of the scene as FFmpeg detection
  built it, before rounding and clamping, rounded to a millisecond. Where neither clamp
  applies to the scene (its start time is not negative, its end time is not above the
  duration of the video), the returned duration is within 1.5 milliseconds of the
  difference of the returned times.
\<close>

theorem fallback_duration_field:
  assumes "getVideoInfo (ffprobe w) = Inr info"
    and "detectScenesFFmpeg w (3/10) (round (sec * f)) f = Inr raw"
  shows "\<exists>scs. fallbackDetectScenes w sec f = Inr scs \<and> length scs = length raw
       \<and> (\<forall>i < length raw.
            duration (scs ! i) = toFixed3 (end_time (raw ! i) - start_time (raw ! i))
            \<and> (0 \<le> start_time (raw ! i) \<and> end_time (raw ! i) \<le> video_info.duration info \<longrightarrow>
                 \<bar>duration (scs ! i) - (end_time (scs ! i) - start_time (scs ! i))\<bar> \<le> 3/2000))"
proof -
  define scs where "scs = map_index (cleanScene info) 0 raw"
  have res: "fallbackDetectScenes w sec f = Inr scs"
    using assms by (simp add: fallbackDetectScenes_def Let_def scs_def)
  have len: "length scs = length raw" by (simp add: scs_def length_map_index)
  have each: "duration (scs ! i) = toFixed3 (end_time (raw ! i) - start_time (raw ! i))
            \<and> (0 \<le> start_time (raw ! i) \<and> end_time (raw ! i) \<le> video_info.duration info \<longrightarrow>
                 \<bar>duration (scs ! i) - (end_time (scs ! i) - start_time (scs ! i))\<bar> \<le> 3/2000)"
    if "i < length raw" for i
  proof -
    define x where "x = raw ! i"
    have eq: "scs ! i = cleanScene info x i"
      using that by (simp add: scs_def nth_map_index x_def)
    have d: "duration (scs ! i) = toFixed3 (end_time x - start_time x)"
      by (simp add: eq cleanScene_def)
    have bound: "\<bar>duration (scs ! i) - (end_time (scs ! i) - start_time (scs ! i))\<bar> \<le> 3/2000"
      if nc: "0 \<le> start_time x \<and> end_time x \<le> video_info.duration info"
    proof -
      have s0: "0 \<le> toFixed3 (start_time x)"
        using nc by (simp add: toFixed3_nonneg)
      have st: "start_time (scs ! i) = toFixed3 (start_time x)"
        using s0 by (simp add: eq cleanScene_def)
      have et: "\<bar>end_time (scs ! i) - end_time x\<bar> \<le> 1/2000"
      proof (cases "video_info.duration info \<le> toFixed3 (end_time x)")
        case True
        then have "end_time (scs ! i) = video_info.duration info"
          by (simp add: eq cleanScene_def)
        with True toFixed3_near [of "end_time x"] nc show ?thesis by linarith
      next
        case False
        then have "end_time (scs ! i) = toFixed3 (end_time x)"
          by (simp add: eq cleanScene_def)
        with toFixed3_near [of "end_time x"] show ?thesis by simp
      qed
      from toFixed3_near [of "start_time x"] toFixed3_near [of "end_time x - start_time x"] et
      show ?thesis unfolding d st by linarith
    qed
    from d bound show ?thesis by (simp add: x_def)
  qed
  from res len each show ?thesis by blast
qed

theorem fallback_duration_field_witness:
  "fallbackDetectScenes (example_world SpawnError (Inr [(25/24, 1/2), (30004/10000, 1/2)])) 1 24
     = Inr [\<lparr>start_frame = 1, end_frame = 25, start_time = 0, end_time = 1042/1000,
              scene_number = 1, duration = 1042/1000\<rparr>,
            \<lparr>start_frame = 26, end_frame = 72, start_time = 1042/1000, end_time = 3,
              scene_number = 2, duration = 1959/1000\<rparr>,
            \<lparr>start_frame = 73, end_frame = 240, start_time = 3, end_time = 10,
              scene_number = 3, duration = 7\<rparr>]
   \<and> toFixed3 (30004/10000 - 25/24) = 1959/1000
   \<and> \<bar>1959/1000 - (3 - 1042/1000)\<bar> \<le> (3/2000 :: rat)"
proof -
  let ?w = "example_world SpawnError (Inr [(25/24, 1/2), (30004/10000, 1/2)])"
  let ?raw = "[\<lparr>start_frame = 1, end_frame = 25, start_time = 0, end_time = 25/24\<rparr>,
               \<lparr>start_frame = 26, end_frame = 72, start_time = 25/24, end_time = 30004/10000\<rparr>,
               \<lparr>start_frame = 73, end_frame = 240, start_time = 3, end_time = 10\<rparr>]
              :: raw_scene list"
  have h1: "getVideoInfo (ffprobe ?w) = Inr example_info" by code_simp
  have h2: "detectScenesFFmpeg ?w (3/10) (round (1 * 24 :: rat)) 24 = Inr ?raw" by code_simp
  have res: "fallbackDetectScenes ?w 1 24
     = Inr [\<lparr>start_frame = 1, end_frame = 25, start_time = 0, end_time = 1042/1000,
              scene_number = 1, duration = 1042/1000\<rparr>,
            \<lparr>start_frame = 26, end_frame = 72, start_time = 1042/1000, end_time = 3,
              scene_number = 2, duration = 1959/1000\<rparr>,
            \<lparr>start_frame = 73, end_frame = 240, start_time = 3, end_time = 10,
              scene_number = 3, duration = 7\<rparr>]"
    by code_simp
  have nc: "0 \<le> start_time (?raw ! 1) \<and> end_time (?raw ! 1) \<le> video_info.duration example_info"
    by code_simp
  from fallback_duration_field [OF h1 h2] res
  have "duration (\<lparr>start_frame = 26, end_frame = 72, start_time = 1042/1000, end_time = 3,
              scene_number = 2, duration = 1959/1000\<rparr> :: scene)
          = toFixed3 (end_time (?raw ! 1) - start_time (?raw ! 1))
        \<and> \<bar>1959/1000 - (3 - 1042/1000)\<bar> \<le> (3/2000 :: rat)"
    using nc by force
  with res show ?thesis by simp
qed

text \<open>
  C10: a call with \<open>minSceneLength\<close> = 0 behaves as a call without \<open>minSceneLength\<close>
  (\<open>undefined\<close>, \<open>null\<close> and \<open>NaN\<close> are the missing value of the model): the minimum scene
  length is the default of 1 second, not the floor of 0.5 seconds, and \<open>detectScenes\<close>
  returns the same result.
\<close>

theorem minSceneLength_zero_is_default:
  "minSceneLengthSec_of (Some 0) f = minSceneLengthSec_of None f
   \<and> minSceneLengthSec_of (Some 0) f = 1
   \<and> minSceneLengthSec_of (Some 0) f \<noteq> 1/2
   \<and> detectScenes w (opts\<lparr>minSceneLength := Some 0\<rparr>)
       = detectScenes w (opts\<lparr>minSceneLength := None\<rparr>)"
  by (simp add: minSceneLengthSec_of_def DEFAULT_MIN_SCENE_LENGTH_def Let_def
        detectScenes_def fps_of_def threshold_of_def split: sum.splits)

end
